theory Spec2Isabelle
  imports Main
begin

section \<open>The QR-code scanner dialog (src/components/QRCodeScanner.tsx)\<close>

text \<open>
  The component is event driven. An async function of the source runs without interruption
  up to its next \<^verbatim>\<open>await\<close>; there it parks a continuation, and a later event of the
  environment (the promise settles) resumes it. The model has one function per such piece of
  the source, a list of parked continuations, and a \<open>step\<close> function that takes one event of
  the environment: a change of the \<^verbatim>\<open>open\<close> prop, a click, a settled promise, or a callback
  of the decoding engine.

  Calls that leave the component (browser, decoding engine, the caller's two callbacks) are
  appended to a trace, in call order.
\<close>

subsection \<open>Strings\<close>

fun startsWith :: "string \<Rightarrow> string \<Rightarrow> bool" where
  "startsWith s [] = True"
| "startsWith [] (p # ps) = False"
| "startsWith (c # cs) (p # ps) = (c = p \<and> startsWith cs ps)"

text \<open>\<^verbatim>\<open>String.prototype.includes\<close>: the pattern occurs somewhere in the string.\<close>

fun str_includes :: "string \<Rightarrow> string \<Rightarrow> bool" where
  "str_includes [] pat = (pat = [])"
| "str_includes (c # cs) pat = (startsWith (c # cs) pat \<or> str_includes cs pat)"

text \<open>JavaScript truthiness of a \<^verbatim>\<open>string | null\<close>: null and the empty string are falsy.\<close>

fun truthy :: "string option \<Rightarrow> bool" where
  "truthy None = False"
| "truthy (Some m) = (m \<noteq> [])"

subsection \<open>Data\<close>

text \<open>
  A thrown or rejected value: an instance of \<^verbatim>\<open>Error\<close> with its name and message, or
  anything else (the decoding engine throws plain strings).
\<close>

datatype thrown = ErrorObj string string | NonError

datatype permission_state = Granted | Denied | Prompt

text \<open>Scanner objects and media tracks are named by numbers.\<close>

datatype effect =
    PermissionsQuery
  | GetUserMedia
  | TrackStop nat
  | NewScanner nat
  | ScannerStart nat
  | ScannerStop nat
  | ScannerClear nat
  | OnScanSuccess string
  | OnClose

datatype continuation =
    AwaitPermissionsQuery
  | AwaitGetUserMedia
  | AwaitStart nat
  | AwaitStop nat
  | AwaitClear nat

text \<open>What \<^verbatim>\<open>navigator\<close> offers (lines 41 and 46).\<close>

record platform =
  hasMediaDevices :: bool
  hasPermissionsQuery :: bool

text \<open>
  The component: the \<^verbatim>\<open>open\<close> prop as the last effect run saw it, the ref, the four
  \<^verbatim>\<open>useState\<close> cells, and the bookkeeping of the model (parked continuations, the scanners
  whose \<^verbatim>\<open>stop()\<close> has resolved, the next fresh scanner number, exceptions that escaped an
  async function, the trace).
\<close>

record scanner =
  mounted :: bool
  is_open :: bool
  scannerRef :: "nat option"
  isScanning :: bool
  error :: "string option"
  permissionError :: bool
  isRequestingPermission :: bool
  pending :: "continuation list"
  stopped :: "nat list"
  next_id :: nat
  unhandled :: "thrown list"
  trace :: "effect list"

datatype event =
    SetOpen bool
  | Unmount
  | ClickStartCamera
  | ClickRetry
  | ClickCancel
  | PermissionsQueryResolved permission_state
  | PermissionsQueryRejected thrown
  | GetUserMediaResolved "nat list" "thrown option"
  | GetUserMediaRejected thrown
  | StartResolved nat
  | StartRejected nat thrown
  | StopResolved nat
  | StopRejected nat thrown
  | ClearResolved nat
  | ClearRejected nat thrown
  | Decoded nat string
  | FrameError nat string

definition init :: scanner where
  "init = \<lparr> mounted = True, is_open = False, scannerRef = None, isScanning = False,
            error = None, permissionError = False, isRequestingPermission = False,
            pending = [], stopped = [], next_id = 0, unhandled = [], trace = [] \<rparr>"

subsection \<open>Exceptions\<close>

text \<open>
  A piece of code returns \<open>Inl e\<close> when it throws \<open>e\<close> and \<open>Inr s\<close> when it runs to its end
  or to its next \<^verbatim>\<open>await\<close>. \<open>try_catch\<close> is \<^verbatim>\<open>try { body } catch (e) { handler }\<close>.
\<close>

definition try_catch :: "thrown + 'a \<Rightarrow> (thrown \<Rightarrow> thrown + 'a) \<Rightarrow> thrown + 'a" where
  "try_catch body handler = (case body of Inl e \<Rightarrow> handler e | Inr v \<Rightarrow> Inr v)"

text \<open>
  An exception that escapes an async function rejects its promise; nobody handles the promises
  of this component, so the model only records it.
\<close>

definition settle :: "scanner \<Rightarrow> thrown + scanner \<Rightarrow> scanner" where
  "settle s r = (case r of Inl e \<Rightarrow> s\<lparr>unhandled := unhandled s @ [e]\<rparr> | Inr s' \<Rightarrow> s')"

definition call :: "effect \<Rightarrow> scanner \<Rightarrow> scanner" where
  "call f s = s\<lparr>trace := trace s @ [f]\<rparr>"

definition await :: "continuation \<Rightarrow> scanner \<Rightarrow> scanner" where
  "await k s = s\<lparr>pending := pending s @ [k]\<rparr>"

definition resume :: "continuation \<Rightarrow> scanner \<Rightarrow> scanner" where
  "resume k s = s\<lparr>pending := remove1 k (pending s)\<rparr>"

subsection \<open>stopScanning (lines 165-176)\<close>

text \<open>
  Up to \<^verbatim>\<open>await scannerRef.current.stop()\<close>. A \<^verbatim>\<open>stop()\<close> that throws at once lands in the
  same \<^verbatim>\<open>catch\<close> as one whose promise rejects; both are the event \<open>StopRejected\<close>.
\<close>

definition stopScanning :: "scanner \<Rightarrow> thrown + scanner" where
  "stopScanning s =
     (case scannerRef s of
        Some i \<Rightarrow> Inr (await (AwaitStop i) (call (ScannerStop i) s))
      | None \<Rightarrow> Inr (s\<lparr>isScanning := False\<rparr>))"

text \<open>
  \<^verbatim>\<open>stop()\<close> has resolved: \<^verbatim>\<open>await scannerRef.current.clear()\<close> reads the ref again; on
  \<^verbatim>\<open>null\<close> the property access throws a TypeError, which the \<^verbatim>\<open>catch\<close> takes.
\<close>

definition stopScanning_stopped :: "scanner \<Rightarrow> thrown + scanner" where
  "stopScanning_stopped s =
     try_catch
       (case scannerRef s of
          None \<Rightarrow> Inl (ErrorObj ''TypeError'' ''Cannot read properties of null'')
        | Some j \<Rightarrow> Inr (await (AwaitClear j) (call (ScannerClear j) s)))
       (\<lambda>e. Inr (s\<lparr>isScanning := False\<rparr>))"

text \<open>\<^verbatim>\<open>clear()\<close> has resolved: \<^verbatim>\<open>scannerRef.current = null\<close>, then \<^verbatim>\<open>setIsScanning(false)\<close>.\<close>

definition stopScanning_cleared :: "scanner \<Rightarrow> thrown + scanner" where
  "stopScanning_cleared s = Inr (s\<lparr>scannerRef := None, isScanning := False\<rparr>)"

text \<open>\<^verbatim>\<open>stop()\<close> or \<^verbatim>\<open>clear()\<close> failed: the \<^verbatim>\<open>catch\<close> logs, then \<^verbatim>\<open>setIsScanning(false)\<close>.\<close>

definition stopScanning_failed :: "thrown \<Rightarrow> scanner \<Rightarrow> thrown + scanner" where
  "stopScanning_failed e s = try_catch (Inl e) (\<lambda>e. Inr (s\<lparr>isScanning := False\<rparr>))"

subsection \<open>startScanning (lines 103-163)\<close>

definition startScanning_catch :: "thrown \<Rightarrow> scanner \<Rightarrow> scanner" where
  "startScanning_catch err s =
     (case err of
        ErrorObj name message \<Rightarrow>
          (if name = ''NotAllowedError'' \<or> str_includes message ''Permission''
              \<or> str_includes message ''permission''
           then s\<lparr>permissionError := True,
                  error := Some ''Camera permission is required. Please allow camera access and try again.''\<rparr>
           else if str_includes message ''camera'' \<or> str_includes message ''Camera''
           then s\<lparr>error := Some message\<rparr>
           else s\<lparr>error := Some ''Failed to start camera. Please ensure camera permissions are granted.''\<rparr>)
      | NonError \<Rightarrow>
          s\<lparr>error := Some ''Failed to start camera. Please ensure camera permissions are granted.''\<rparr>)
     \<lparr>isScanning := False\<rparr>"

text \<open>
  Up to \<^verbatim>\<open>await html5QrCode.start(...)\<close>. \<open>ctor\<close> is what \<^verbatim>\<open>new Html5Qrcode(scannerId)\<close>
  does in this turn: \<open>None\<close> when it returns, \<open>Some e\<close> when it throws \<open>e\<close>.
\<close>

definition startScanning :: "thrown option \<Rightarrow> scanner \<Rightarrow> thrown + scanner" where
  "startScanning ctor s =
     (let s1 = s\<lparr>error := None, permissionError := False, isScanning := True\<rparr> in
      try_catch
        (case ctor of
           Some e \<Rightarrow> Inl e
         | None \<Rightarrow>
             (let i = next_id s1;
                  s2 = call (NewScanner i) (s1\<lparr>next_id := Suc i\<rparr>);
                  s3 = s2\<lparr>scannerRef := Some i\<rparr>
              in Inr (await (AwaitStart i) (call (ScannerStart i) s3))))
        (\<lambda>e. Inr (startScanning_catch e s1)))"

text \<open>The promise of \<^verbatim>\<open>start\<close> rejects: the same \<^verbatim>\<open>catch\<close>.\<close>

definition startScanning_failed :: "thrown \<Rightarrow> scanner \<Rightarrow> thrown + scanner" where
  "startScanning_failed e s = try_catch (Inl e) (\<lambda>e. Inr (startScanning_catch e s))"

text \<open>
  The two callbacks handed to \<^verbatim>\<open>start\<close> (lines 121-126 and 127-144). \<^verbatim>\<open>stopScanning()\<close> is
  called and not awaited: it runs to its first \<^verbatim>\<open>await\<close>, then the callback goes on.
\<close>

definition onDecoded :: "string \<Rightarrow> scanner \<Rightarrow> scanner" where
  "onDecoded decodedText s =
     call OnClose (call (OnScanSuccess decodedText) (settle s (stopScanning s)))"

definition benign :: "string \<Rightarrow> bool" where
  "benign errorMessage =
     (str_includes errorMessage ''NotFoundException''
      \<or> str_includes errorMessage ''No QR code found''
      \<or> str_includes errorMessage ''QR code parse error''
      \<or> str_includes errorMessage ''No MultiFormat Readers'')"

definition permission_like :: "string \<Rightarrow> bool" where
  "permission_like errorMessage =
     (str_includes errorMessage ''Permission''
      \<or> str_includes errorMessage ''camera''
      \<or> str_includes errorMessage ''NotAllowedError''
      \<or> str_includes errorMessage ''PermissionDeniedError'')"

definition onFrameError :: "string \<Rightarrow> scanner \<Rightarrow> scanner" where
  "onFrameError errorMessage s =
     (if \<not> benign errorMessage then
        (if permission_like errorMessage then
           s\<lparr>permissionError := True,
             error := Some ''Camera permission was denied. Please allow camera access and try again.'',
             isScanning := False\<rparr>
         else s)
      else s)"

subsection \<open>checkCameraPermissions and checkPermissionsAndStart (lines 38-101)\<close>

definition checkCameraPermissions_catch :: "thrown \<Rightarrow> scanner \<Rightarrow> scanner" where
  "checkCameraPermissions_catch err s =
     (let s1 = s\<lparr>isRequestingPermission := False\<rparr> in
      case err of
        ErrorObj name message \<Rightarrow>
          (if name = ''NotAllowedError'' \<or> name = ''PermissionDeniedError''
           then s1\<lparr>permissionError := True,
                   error := Some ''Camera permission is required to scan QR codes. Please allow camera access and try again.''\<rparr>
           else if name = ''NotFoundError'' \<or> name = ''DevicesNotFoundError''
           then s1\<lparr>error := Some ''No camera found. Please connect a camera and try again.''\<rparr>
           else if name = ''NotReadableError'' \<or> name = ''TrackStartError''
           then s1\<lparr>error := Some ''Camera is already in use by another application. Please close other apps using the camera and try again.''\<rparr>
           else s1\<lparr>error := Some (if message \<noteq> [] then message
                                    else ''Failed to access camera. Please check your browser settings.'')\<rparr>)
      | NonError \<Rightarrow>
          s1\<lparr>error := Some ''Failed to access camera. Please ensure camera permissions are granted.''\<rparr>)"

text \<open>Lines 61-65: \<^verbatim>\<open>setIsRequestingPermission(true)\<close>, then \<^verbatim>\<open>await getUserMedia(...)\<close>.\<close>

definition requestCamera :: "scanner \<Rightarrow> scanner" where
  "requestCamera s =
     await AwaitGetUserMedia (call GetUserMedia (s\<lparr>isRequestingPermission := True\<rparr>))"

text \<open>
  From the call to the first \<^verbatim>\<open>await\<close>. The result \<^verbatim>\<open>true\<close> is only ever returned after
  \<^verbatim>\<open>getUserMedia\<close> has resolved, so this piece never starts the scanner.
\<close>

definition checkCameraPermissions :: "platform \<Rightarrow> scanner \<Rightarrow> thrown + scanner" where
  "checkCameraPermissions p s =
     try_catch
       (if \<not> hasMediaDevices p
        then Inl (ErrorObj ''Error'' ''Camera API is not supported in this browser'')
        else if hasPermissionsQuery p
        then Inr (await AwaitPermissionsQuery (call PermissionsQuery s))
        else Inr (requestCamera s))
       (\<lambda>e. Inr (checkCameraPermissions_catch e s))"

text \<open>The permission query has resolved (lines 50-54), or has failed (lines 55-58).\<close>

definition checkCameraPermissions_queried :: "permission_state \<Rightarrow> scanner \<Rightarrow> thrown + scanner" where
  "checkCameraPermissions_queried st s =
     (if st = Denied
      then Inr (s\<lparr>permissionError := True,
                  error := Some ''Camera permission is denied. Please enable camera access in your browser settings and try again.''\<rparr>)
      else Inr (requestCamera s))"

definition checkCameraPermissions_query_failed :: "scanner \<Rightarrow> thrown + scanner" where
  "checkCameraPermissions_query_failed s = Inr (requestCamera s)"

text \<open>
  \<^verbatim>\<open>getUserMedia\<close> has resolved with a stream of the given tracks (lines 67-70): every track
  is stopped and the function returns \<^verbatim>\<open>true\<close>.
\<close>

definition checkCameraPermissions_granted :: "nat list \<Rightarrow> scanner \<Rightarrow> scanner" where
  "checkCameraPermissions_granted tracks s =
     (s\<lparr>trace := trace s @ map TrackStop tracks\<rparr>)\<lparr>isRequestingPermission := False\<rparr>"

text \<open>
  \<^verbatim>\<open>checkPermissionsAndStart\<close> after its \<^verbatim>\<open>await\<close>, when the result is \<^verbatim>\<open>true\<close>:
  \<^verbatim>\<open>startScanning()\<close>, whatever the \<^verbatim>\<open>open\<close> prop is by now.
\<close>

definition checkPermissionsAndStart_granted ::
  "nat list \<Rightarrow> thrown option \<Rightarrow> scanner \<Rightarrow> thrown + scanner" where
  "checkPermissionsAndStart_granted tracks ctor s =
     startScanning ctor (checkCameraPermissions_granted tracks s)"

definition checkPermissionsAndStart :: "platform \<Rightarrow> scanner \<Rightarrow> thrown + scanner" where
  "checkPermissionsAndStart p s = checkCameraPermissions p s"

subsection \<open>The effect on \<^verbatim>\<open>open\<close> (lines 21-35), the buttons (lines 243-267)\<close>

definition effect_cleanup :: "scanner \<Rightarrow> scanner" where
  "effect_cleanup s = settle s (stopScanning s)"

definition effect_body :: "platform \<Rightarrow> bool \<Rightarrow> scanner \<Rightarrow> scanner" where
  "effect_body p b s =
     (if b then
        (let s1 = s\<lparr>error := None, permissionError := False\<rparr>
         in settle s1 (checkPermissionsAndStart p s1))
      else settle s (stopScanning s))"

definition handleRetry :: "platform \<Rightarrow> scanner \<Rightarrow> scanner" where
  "handleRetry p s =
     (let s1 = s\<lparr>error := None, permissionError := False\<rparr>
      in settle s1 (checkPermissionsAndStart p s1))"

text \<open>
  The buttons are children of \<^verbatim>\<open><Dialog open={open}>\<close> (lines 185-186): a closed dialog
  shows none of them. The Retry button is rendered when \<^verbatim>\<open>error\<close> is truthy, and disabled
  while requesting (lines 247-248).
\<close>

definition retry_enabled :: "scanner \<Rightarrow> bool" where
  "retry_enabled s =
     (mounted s \<and> is_open s \<and> truthy (error s) \<and> \<not> isRequestingPermission s)"

text \<open>The Start Camera button is rendered by line 262.\<close>

definition start_camera_rendered :: "scanner \<Rightarrow> bool" where
  "start_camera_rendered s =
     (mounted s \<and> is_open s \<and> \<not> truthy (error s) \<and> \<not> isScanning s
      \<and> \<not> isRequestingPermission s)"

text \<open>The Cancel button (lines 243-246), and the dialog's own ways to dismiss it (line 185).\<close>

definition cancel_rendered :: "scanner \<Rightarrow> bool" where
  "cancel_rendered s = (mounted s \<and> is_open s)"

text \<open>
  The decoding engine calls the callbacks of a scanner that was started; section 6 of the
  specification has it call none once a \<^verbatim>\<open>stop()\<close> of that scanner has resolved.
\<close>

definition delivers :: "scanner \<Rightarrow> nat \<Rightarrow> bool" where
  "delivers s i = (ScannerStart i \<in> set (trace s) \<and> i \<notin> set (stopped s))"

subsection \<open>One event\<close>

text \<open>
  An event that cannot happen in a state (a click on a button that is not there, a promise
  nobody waits for, an effect whose dependency did not change) leaves the state as it is.
\<close>

definition step :: "platform \<Rightarrow> scanner \<Rightarrow> event \<Rightarrow> scanner" where
  "step p s e =
     (case e of
        SetOpen b \<Rightarrow>
          (if mounted s \<and> b \<noteq> is_open s
           then effect_body p b (effect_cleanup (s\<lparr>is_open := b\<rparr>))
           else s)
      | Unmount \<Rightarrow>
          (if mounted s then effect_cleanup (s\<lparr>mounted := False\<rparr>) else s)
      | ClickStartCamera \<Rightarrow>
          (if start_camera_rendered s then settle s (checkPermissionsAndStart p s) else s)
      | ClickRetry \<Rightarrow>
          (if retry_enabled s then handleRetry p s else s)
      | ClickCancel \<Rightarrow>
          (if cancel_rendered s then call OnClose s else s)
      | PermissionsQueryResolved st \<Rightarrow>
          (if AwaitPermissionsQuery \<in> set (pending s)
           then (let s1 = resume AwaitPermissionsQuery s
                 in settle s1 (checkCameraPermissions_queried st s1))
           else s)
      | PermissionsQueryRejected err \<Rightarrow>
          (if AwaitPermissionsQuery \<in> set (pending s)
           then (let s1 = resume AwaitPermissionsQuery s
                 in settle s1 (checkCameraPermissions_query_failed s1))
           else s)
      | GetUserMediaResolved tracks ctor \<Rightarrow>
          (if AwaitGetUserMedia \<in> set (pending s)
           then (let s1 = resume AwaitGetUserMedia s
                 in settle s1 (checkPermissionsAndStart_granted tracks ctor s1))
           else s)
      | GetUserMediaRejected err \<Rightarrow>
          (if AwaitGetUserMedia \<in> set (pending s)
           then checkCameraPermissions_catch err (resume AwaitGetUserMedia s)
           else s)
      | StartResolved i \<Rightarrow>
          (if AwaitStart i \<in> set (pending s) then resume (AwaitStart i) s else s)
      | StartRejected i err \<Rightarrow>
          (if AwaitStart i \<in> set (pending s)
           then (let s1 = resume (AwaitStart i) s
                 in settle s1 (startScanning_failed err s1))
           else s)
      | StopResolved i \<Rightarrow>
          (if AwaitStop i \<in> set (pending s)
           then (let s1 = (resume (AwaitStop i) s)\<lparr>stopped := stopped s @ [i]\<rparr>
                 in settle s1 (stopScanning_stopped s1))
           else s)
      | StopRejected i err \<Rightarrow>
          (if AwaitStop i \<in> set (pending s)
           then (let s1 = resume (AwaitStop i) s
                 in settle s1 (stopScanning_failed err s1))
           else s)
      | ClearResolved j \<Rightarrow>
          (if AwaitClear j \<in> set (pending s)
           then (let s1 = resume (AwaitClear j) s
                 in settle s1 (stopScanning_cleared s1))
           else s)
      | ClearRejected j err \<Rightarrow>
          (if AwaitClear j \<in> set (pending s)
           then (let s1 = resume (AwaitClear j) s
                 in settle s1 (stopScanning_failed err s1))
           else s)
      | Decoded i decodedText \<Rightarrow>
          (if delivers s i then onDecoded decodedText s else s)
      | FrameError i errorMessage \<Rightarrow>
          (if delivers s i then onFrameError errorMessage s else s))"

fun run :: "platform \<Rightarrow> scanner \<Rightarrow> event list \<Rightarrow> scanner" where
  "run p s [] = s"
| "run p s (e # es) = run p (step p s e) es"

text \<open>
  The phase of the specification, read off the four state cells in the order in which the
  render reads them: the overlay and the Retry button look at \<^verbatim>\<open>isRequestingPermission\<close>
  first, then at \<^verbatim>\<open>error\<close>.
\<close>

datatype phase = Idle | RequestingPermission | Scanning | Error | PermissionDenied

definition phase_of :: "scanner \<Rightarrow> phase" where
  "phase_of s =
     (if isRequestingPermission s then RequestingPermission
      else if truthy (error s) then (if permissionError s then PermissionDenied else Error)
      else if isScanning s then Scanning
      else Idle)"

definition browser :: platform where
  "browser = \<lparr> hasMediaDevices = True, hasPermissionsQuery = True \<rparr>"

definition browser_without_query :: platform where
  "browser_without_query = \<lparr> hasMediaDevices = True, hasPermissionsQuery = False \<rparr>"

subsection \<open>Reading a trace\<close>

text \<open>The texts handed to \<^verbatim>\<open>onScanSuccess\<close>, in call order.\<close>

fun successes :: "effect list \<Rightarrow> string list" where
  "successes [] = []"
| "successes (OnScanSuccess t # tr) = t # successes tr"
| "successes (f # tr) = successes tr"

text \<open>Every call of \<^verbatim>\<open>onScanSuccess\<close> is followed at once by a call of \<^verbatim>\<open>onClose\<close>.\<close>

fun closes_follow :: "effect list \<Rightarrow> bool" where
  "closes_follow [] = True"
| "closes_follow [OnScanSuccess t] = False"
| "closes_follow (OnScanSuccess t # f # tr) = (f = OnClose \<and> closes_follow tr)"
| "closes_follow (f # tr) = closes_follow tr"

text \<open>The texts of the decode callbacks that the engine delivers along a run.\<close>

fun delivered :: "platform \<Rightarrow> scanner \<Rightarrow> event list \<Rightarrow> string list" where
  "delivered p s [] = []"
| "delivered p s (Decoded i t # es) =
     (if delivers s i then [t] else []) @ delivered p (step p s (Decoded i t)) es"
| "delivered p s (e # es) = delivered p (step p s e) es"

section \<open>The admin route guard (AdminRoute)\<close>

text \<open>
  The guard keeps one state cell, \<^verbatim>\<open>checking\<close> (here \<open>is_checking\<close>), initially true, and
  shows its children when it is false. Its effect runs \<^verbatim>\<open>verifyAdmin\<close>, which parks at
  \<^verbatim>\<open>await apiClient.getProfile()\<close>. The trace records the toasts, the navigations and the
  calls of the API client.
\<close>

datatype admin_effect = ToastError string | Navigate string | GetProfile | ClearToken

record admin_route =
  is_checking :: bool
  fetching :: nat
  admin_trace :: "admin_effect list"

text \<open>
  The effect runs with what \<^verbatim>\<open>localStorage.getItem("auth_token")\<close> returns; the profile
  fetch resolves with a user (only \<^verbatim>\<open>isAdmin\<close> is read) or rejects.
\<close>

datatype admin_event = VerifyAdmin "string option" | ProfileResolved bool | ProfileRejected

definition admin_init :: admin_route where
  "admin_init = \<lparr> is_checking = True, fetching = 0, admin_trace = [] \<rparr>"

text \<open>Lines 18-26, up to the \<^verbatim>\<open>await\<close>.\<close>

definition verifyAdmin :: "string option \<Rightarrow> admin_route \<Rightarrow> admin_route" where
  "verifyAdmin token s =
     (if \<not> truthy token
      then s\<lparr>admin_trace := admin_trace s @ [ToastError ''Please login first'', Navigate ''/login'']\<rparr>
      else s\<lparr>fetching := Suc (fetching s), admin_trace := admin_trace s @ [GetProfile]\<rparr>)"

text \<open>Lines 27-33: the profile has arrived.\<close>

definition verifyAdmin_profile :: "bool \<Rightarrow> admin_route \<Rightarrow> admin_route" where
  "verifyAdmin_profile isAdmin s =
     (if \<not> isAdmin
      then s\<lparr>admin_trace := admin_trace s @
                [ToastError ''Access denied: Admins only'', Navigate ''/dashboard'']\<rparr>
      else s\<lparr>is_checking := False\<rparr>)"

text \<open>Lines 34-39: the fetch has failed.\<close>

definition verifyAdmin_catch :: "admin_route \<Rightarrow> admin_route" where
  "verifyAdmin_catch s =
     s\<lparr>admin_trace := admin_trace s @
          [ToastError ''Session expired. Please login again'', ClearToken, Navigate ''/login'']\<rparr>"

definition admin_step :: "admin_route \<Rightarrow> admin_event \<Rightarrow> admin_route" where
  "admin_step s e =
     (case e of
        VerifyAdmin token \<Rightarrow> verifyAdmin token s
      | ProfileResolved isAdmin \<Rightarrow>
          (if 0 < fetching s
           then verifyAdmin_profile isAdmin (s\<lparr>fetching := fetching s - 1\<rparr>)
           else s)
      | ProfileRejected \<Rightarrow>
          (if 0 < fetching s
           then verifyAdmin_catch (s\<lparr>fetching := fetching s - 1\<rparr>)
           else s))"

fun admin_run :: "admin_route \<Rightarrow> admin_event list \<Rightarrow> admin_route" where
  "admin_run s [] = s"
| "admin_run s (e # es) = admin_run (admin_step s e) es"

text \<open>Lines 45-56: the spinner while \<^verbatim>\<open>checking\<close>, the children otherwise.\<close>

definition renders_children :: "admin_route \<Rightarrow> bool" where
  "renders_children s = (\<not> is_checking s)"

section \<open>Properties of the scanner\<close>

lemmas flow =
  try_catch_def settle_def call_def await_def resume_def
  stopScanning_def stopScanning_stopped_def stopScanning_cleared_def stopScanning_failed_def
  startScanning_def startScanning_failed_def
  onDecoded_def onFrameError_def
  checkCameraPermissions_def requestCamera_def
  checkCameraPermissions_queried_def checkCameraPermissions_query_failed_def
  checkCameraPermissions_granted_def checkPermissionsAndStart_granted_def
  checkPermissionsAndStart_def effect_cleanup_def effect_body_def handleRetry_def
  retry_enabled_def start_camera_rendered_def cancel_rendered_def

lemmas pieces = flow startScanning_catch_def checkCameraPermissions_catch_def delivers_def

lemma trace_startScanning_catch: "trace (startScanning_catch e s) = trace s"
  by (simp add: startScanning_catch_def split: thrown.splits)

lemma trace_checkCameraPermissions_catch: "trace (checkCameraPermissions_catch e s) = trace s"
  by (simp add: checkCameraPermissions_catch_def Let_def split: thrown.splits)

lemma successes_append: "successes (a @ b) = successes a @ successes b"
  by (induction a rule: successes.induct) simp_all

lemma successes_track_stops: "successes (map TrackStop tracks) = []"
  by (induction tracks) simp_all

lemma closes_follow_append:
  "closes_follow a \<Longrightarrow> closes_follow (a @ b) = closes_follow b"
  by (induction a rule: closes_follow.induct) simp_all

lemma closes_follow_track_stops: "closes_follow (map TrackStop tracks @ tr) = closes_follow tr"
  by (induction tracks) simp_all

lemma closes_follow_only_track_stops: "closes_follow (map TrackStop tracks)"
  by (induction tracks) simp_all

lemma step_successes:
  "successes (trace (step p s e)) =
     successes (trace s) @ (case e of Decoded i t \<Rightarrow> (if delivers s i then [t] else []) | _ \<Rightarrow> [])"
  by (cases e)
     (simp_all add: step_def flow Let_def successes_append successes_track_stops
        trace_startScanning_catch trace_checkCameraPermissions_catch
        split: option.splits)

lemma step_closes_follow:
  "closes_follow (trace s) \<Longrightarrow> closes_follow (trace (step p s e))"
  by (cases e)
     (simp_all add: step_def flow Let_def closes_follow_append closes_follow_track_stops
        closes_follow_only_track_stops trace_startScanning_catch trace_checkCameraPermissions_catch
        split: option.splits)

lemma delivered_Cons:
  "delivered p s (e # es) =
     (case e of Decoded i t \<Rightarrow> (if delivers s i then [t] else []) | _ \<Rightarrow> [])
       @ delivered p (step p s e) es"
  by (cases e) simp_all



text \<open>
  C8 (as the code has it). When \<^verbatim>\<open>getUserMedia\<close> rejects with NotReadableError or
  TrackStartError, the message becomes the one that contains "in use" and the request is no
  longer in flight. The branch leaves \<^verbatim>\<open>permissionError\<close> as it finds it: the phase is Error
  when no permission error is on record at that moment, and PermissionDenied when one is.
\<close>

theorem device_busy:
  assumes "AwaitGetUserMedia \<in> set (pending s)"
    and "name = ''NotReadableError'' \<or> name = ''TrackStartError''"
  shows "error (step p s (GetUserMediaRejected (ErrorObj name message))) =
           Some ''Camera is already in use by another application. Please close other apps using the camera and try again.''
       \<and> str_includes ''Camera is already in use by another application. Please close other apps using the camera and try again.'' ''in use''
       \<and> \<not> isRequestingPermission (step p s (GetUserMediaRejected (ErrorObj name message)))
       \<and> permissionError (step p s (GetUserMediaRejected (ErrorObj name message))) = permissionError s
       \<and> phase_of (step p s (GetUserMediaRejected (ErrorObj name message))) =
           (if permissionError s then PermissionDenied else Error)"
  using assms by (auto simp add: step_def phase_of_def pieces)

theorem device_busy_witness:
  "AwaitGetUserMedia \<in> set (pending (run browser_without_query init [SetOpen True]))
   \<and> \<not> permissionError (run browser_without_query init [SetOpen True])
   \<and> phase_of (run browser_without_query init
        [SetOpen True, GetUserMediaRejected (ErrorObj ''NotReadableError'' ''Could not start video source'')]) = Error
   \<and> phase_of (run browser_without_query init
        [SetOpen True, GetUserMediaRejected (ErrorObj ''TrackStartError'' [])]) = Error"
  using device_busy [of "run browser_without_query init [SetOpen True]" "''NotReadableError''"
                        browser_without_query "''Could not start video source''"]
        device_busy [of "run browser_without_query init [SetOpen True]" "''TrackStartError''"
                        browser_without_query "[]"]
  by (simp add: step_def init_def browser_without_query_def pieces)

text \<open>
  C8 as stated fails: the dialog opens and, while the permission query is pending, Start
  Camera is clicked (the button is there: no error, not scanning, no request yet). The first
  query answers "denied", the second "prompt", and the acquisition of the second flow is
  rejected as not readable: the message is the one with "in use", the phase is
  PermissionDenied.
\<close>

theorem device_busy_with_permission_flag:
  "phase_of (run browser init
      [SetOpen True, ClickStartCamera, PermissionsQueryResolved Denied,
       PermissionsQueryResolved Prompt,
       GetUserMediaRejected (ErrorObj ''NotReadableError'' ''Could not start video source'')])
     = PermissionDenied
   \<and> error (run browser init
      [SetOpen True, ClickStartCamera, PermissionsQueryResolved Denied,
       PermissionsQueryResolved Prompt,
       GetUserMediaRejected (ErrorObj ''NotReadableError'' ''Could not start video source'')])
     = Some ''Camera is already in use by another application. Please close other apps using the camera and try again.''"
  by (simp add: step_def init_def browser_def pieces phase_of_def)

lemma open_again_noop:
  assumes "is_open s" and "isScanning s" and "e = SetOpen True \<or> e = ClickStartCamera"
  shows "step p s e = s"
  using assms by (auto simp add: step_def start_camera_rendered_def)

lemma open_again_run_noop:
  assumes "is_open s" and "isScanning s"
    and "\<forall>e \<in> set es. e = SetOpen True \<or> e = ClickStartCamera"
  shows "run p s es = s"
  using assms
proof (induction es)
  case Nil
  then show ?case by simp
next
  case (Cons e es)
  then have "step p s e = s" by (simp add: open_again_noop)
  with Cons show ?case by simp
qed

text \<open>
  C3. While the dialog is open and in the phase Scanning, opening again (the \<^verbatim>\<open>open\<close> prop
  set to true once more, or a click where the Start Camera button would be) changes nothing:
  the state, and with it the number of \<^verbatim>\<open>getUserMedia\<close> calls, stays as it is, for every
  sequence of such events.
\<close>

theorem open_idempotent_while_scanning:
  assumes "is_open s" and "phase_of s = Scanning"
    and "\<forall>e \<in> set es. e = SetOpen True \<or> e = ClickStartCamera"
  shows "run p s es = s
       \<and> count_list (trace (run p s es)) GetUserMedia = count_list (trace s) GetUserMedia"
proof -
  from assms(2) have "isScanning s"
    by (simp add: phase_of_def split: if_splits)
  with assms(1,3) have "run p s es = s" by (simp add: open_again_run_noop)
  then show ?thesis by simp
qed

theorem open_idempotent_while_scanning_witness:
  "is_open (run browser_without_query init [SetOpen True, GetUserMediaResolved [7] None, StartResolved 0])
   \<and> phase_of (run browser_without_query init [SetOpen True, GetUserMediaResolved [7] None, StartResolved 0]) = Scanning
   \<and> run browser_without_query
        (run browser_without_query init [SetOpen True, GetUserMediaResolved [7] None, StartResolved 0])
        [SetOpen True, ClickStartCamera, SetOpen True]
      = run browser_without_query init [SetOpen True, GetUserMediaResolved [7] None, StartResolved 0]
   \<and> count_list (trace (run browser_without_query
        (run browser_without_query init [SetOpen True, GetUserMediaResolved [7] None, StartResolved 0])
        [SetOpen True, ClickStartCamera, SetOpen True])) GetUserMedia = 1"
proof -
  let ?s = "run browser_without_query init [SetOpen True, GetUserMediaResolved [7] None, StartResolved 0]"
  have s: "?s = \<lparr>mounted = True, is_open = True, scannerRef = Some 0, isScanning = True,
    error = None, permissionError = False, isRequestingPermission = False,
    pending = [], stopped = [], next_id = 1, unhandled = [],
    trace = [GetUserMedia, TrackStop 7, NewScanner 0, ScannerStart 0]\<rparr>"
    by (simp add: step_def init_def browser_without_query_def pieces)
  have a: "is_open ?s" and b: "phase_of ?s = Scanning"
    unfolding s by (simp_all add: phase_of_def)
  have c: "\<forall>e \<in> set [SetOpen True, ClickStartCamera, SetOpen True]. e = SetOpen True \<or> e = ClickStartCamera"
    by simp
  have d: "count_list (trace ?s) GetUserMedia = 1" unfolding s by simp
  from open_idempotent_while_scanning [OF a b c, of browser_without_query] a b d
  show ?thesis by simp
qed




text \<open>
  C1 (as the code has it). On a decode success the callback calls \<^verbatim>\<open>stop()\<close> on the scanner
  in the ref, if there is one, before it calls \<^verbatim>\<open>onScanSuccess\<close> and \<^verbatim>\<open>onClose\<close>; it does
  not wait for it. In the turn of the callback the trace grows by the stop call, the
  notification and the close, the promise of \<^verbatim>\<open>stop()\<close> is still pending when the callback
  returns, and no \<^verbatim>\<open>stop()\<close> has resolved that had not resolved before.
\<close>

theorem decode_success_stop_not_awaited:
  assumes "delivers s j"
  shows "trace (step p s (Decoded j t)) =
           trace s @ (case scannerRef s of Some i \<Rightarrow> [ScannerStop i] | None \<Rightarrow> [])
                   @ [OnScanSuccess t, OnClose]
       \<and> pending (step p s (Decoded j t)) =
           pending s @ (case scannerRef s of Some i \<Rightarrow> [AwaitStop i] | None \<Rightarrow> [])
       \<and> stopped (step p s (Decoded j t)) = stopped s"
  using assms
  by (simp add: step_def onDecoded_def stopScanning_def settle_def call_def await_def
        split: option.splits)

theorem decode_success_stop_not_awaited_witness:
  "delivers (run browser_without_query init [SetOpen True, GetUserMediaResolved [7] None, StartResolved 0]) 0
   \<and> trace (run browser_without_query init
        [SetOpen True, GetUserMediaResolved [7] None, StartResolved 0, Decoded 0 ''ABC123''])
       = [GetUserMedia, TrackStop 7, NewScanner 0, ScannerStart 0,
          ScannerStop 0, OnScanSuccess ''ABC123'', OnClose]"
  using decode_success_stop_not_awaited
    [of "run browser_without_query init [SetOpen True, GetUserMediaResolved [7] None, StartResolved 0]"
        0 browser_without_query "''ABC123''"]
  by (simp add: step_def init_def browser_without_query_def pieces)

text \<open>
  C1 as stated fails: after one decode the caller has its result while the \<^verbatim>\<open>stop()\<close> of
  scanner 0 is pending, \<^verbatim>\<open>clear()\<close> has not been called, and the engine may still call back.
\<close>

theorem notified_while_stream_active:
  "OnScanSuccess ''ABC123'' \<in> set (trace (run browser_without_query init
      [SetOpen True, GetUserMediaResolved [7] None, StartResolved 0, Decoded 0 ''ABC123'']))
   \<and> AwaitStop 0 \<in> set (pending (run browser_without_query init
      [SetOpen True, GetUserMediaResolved [7] None, StartResolved 0, Decoded 0 ''ABC123'']))
   \<and> 0 \<notin> set (stopped (run browser_without_query init
      [SetOpen True, GetUserMediaResolved [7] None, StartResolved 0, Decoded 0 ''ABC123'']))
   \<and> ScannerClear 0 \<notin> set (trace (run browser_without_query init
      [SetOpen True, GetUserMediaResolved [7] None, StartResolved 0, Decoded 0 ''ABC123'']))
   \<and> delivers (run browser_without_query init
      [SetOpen True, GetUserMediaResolved [7] None, StartResolved 0, Decoded 0 ''ABC123'']) 0"
  by (simp add: step_def init_def browser_without_query_def pieces)

text \<open>
  C2 (as the code has it). The probe stream is released in the turn in which
  \<^verbatim>\<open>getUserMedia\<close> resolves: each of its tracks is stopped, whether the dialog is open or
  closed by then; after that \<^verbatim>\<open>startScanning\<close> runs in either case, and starts the decode loop
  unless the constructor throws. Closing the dialog calls \<^verbatim>\<open>stop()\<close> on the scanner in the ref
  (from the effect's cleanup and again from its body), and unmounting calls it once.
\<close>

theorem probe_stream_released_at_once:
  "(AwaitGetUserMedia \<in> set (pending s) \<longrightarrow>
      trace (step p s (GetUserMediaResolved tracks None)) =
        trace s @ map TrackStop tracks @ [NewScanner (next_id s), ScannerStart (next_id s)]
      \<and> trace (step p s (GetUserMediaResolved tracks (Some e))) = trace s @ map TrackStop tracks)
   \<and> (mounted s \<and> is_open s \<and> scannerRef s = Some i \<longrightarrow>
      trace (step p s (SetOpen False)) = trace s @ [ScannerStop i, ScannerStop i])
   \<and> (mounted s \<and> scannerRef s = Some i \<longrightarrow>
      trace (step p s Unmount) = trace s @ [ScannerStop i])"
  by (simp add: step_def pieces Let_def split: thrown.splits)

theorem probe_stream_released_at_once_witness:
  "AwaitGetUserMedia \<in> set (pending (run browser_without_query init [SetOpen True, SetOpen False]))
   \<and> \<not> is_open (run browser_without_query init [SetOpen True, SetOpen False])
   \<and> trace (run browser_without_query init
        [SetOpen True, SetOpen False, GetUserMediaResolved [7, 8] None])
       = [GetUserMedia, TrackStop 7, TrackStop 8, NewScanner 0, ScannerStart 0]
   \<and> trace (run browser_without_query init
        [SetOpen True, GetUserMediaResolved [7] None, StartResolved 0, SetOpen False])
       = [GetUserMedia, TrackStop 7, NewScanner 0, ScannerStart 0, ScannerStop 0, ScannerStop 0]"
proof -
  let ?a = "run browser_without_query init [SetOpen True, SetOpen False]"
  let ?b = "run browser_without_query init [SetOpen True, GetUserMediaResolved [7] None, StartResolved 0]"
  have a: "?a = \<lparr>mounted = True, is_open = False, scannerRef = None, isScanning = False,
    error = None, permissionError = False, isRequestingPermission = True,
    pending = [AwaitGetUserMedia], stopped = [], next_id = 0, unhandled = [],
    trace = [GetUserMedia]\<rparr>"
    by (simp add: step_def init_def browser_without_query_def pieces)
  have b: "?b = \<lparr>mounted = True, is_open = True, scannerRef = Some 0, isScanning = True,
    error = None, permissionError = False, isRequestingPermission = False,
    pending = [], stopped = [], next_id = 1, unhandled = [],
    trace = [GetUserMedia, TrackStop 7, NewScanner 0, ScannerStart 0]\<rparr>"
    by (simp add: step_def init_def browser_without_query_def pieces)
  have a1: "AwaitGetUserMedia \<in> set (pending ?a)" and a2: "\<not> is_open ?a"
    and a3: "trace ?a = [GetUserMedia]" and a4: "next_id ?a = 0"
    unfolding a by simp_all
  have b1: "mounted ?b \<and> is_open ?b \<and> scannerRef ?b = Some 0"
    and b2: "trace ?b = [GetUserMedia, TrackStop 7, NewScanner 0, ScannerStart 0]"
    unfolding b by simp_all
  from probe_stream_released_at_once [of ?a browser_without_query "[7, 8]"] a1
  have c: "trace (step browser_without_query ?a (GetUserMediaResolved [7, 8] None))
      = trace ?a @ map TrackStop [7, 8] @ [NewScanner (next_id ?a), ScannerStart (next_id ?a)]"
    by blast
  from probe_stream_released_at_once [of ?b browser_without_query _ _ 0] b1
  have d: "trace (step browser_without_query ?b (SetOpen False))
      = trace ?b @ [ScannerStop 0, ScannerStop 0]"
    by blast
  have e: "run browser_without_query init
        [SetOpen True, SetOpen False, GetUserMediaResolved [7, 8] None]
      = step browser_without_query ?a (GetUserMediaResolved [7, 8] None)"
    by simp
  have f: "run browser_without_query init
        [SetOpen True, GetUserMediaResolved [7] None, StartResolved 0, SetOpen False]
      = step browser_without_query ?b (SetOpen False)"
    by simp
  show ?thesis
    unfolding e f c d a3 a4 b2 using a1 a2 by simp
qed

text \<open>
  C2 as stated fails: the dialog is opened, closed and opened again before the first
  acquisition resolves. The acquisition of the closed session then starts scanner 0, the one of
  the second session starts scanner 1 and overwrites the ref; closing and unmounting stop
  scanner 1 only. Scanner 0 was started and \<^verbatim>\<open>stop()\<close> is never called on it.
\<close>

theorem stale_acquisition_starts_unreleased_scanner:
  "ScannerStart 0 \<in> set (trace (run browser_without_query init
      [SetOpen True, SetOpen False, SetOpen True, GetUserMediaResolved [7] None,
       GetUserMediaResolved [8] None, SetOpen False, Unmount]))
   \<and> ScannerStop 0 \<notin> set (trace (run browser_without_query init
      [SetOpen True, SetOpen False, SetOpen True, GetUserMediaResolved [7] None,
       GetUserMediaResolved [8] None, SetOpen False, Unmount]))
   \<and> \<not> is_open (run browser_without_query init
      [SetOpen True, SetOpen False, SetOpen True, GetUserMediaResolved [7] None,
       GetUserMediaResolved [8] None, SetOpen False, Unmount])
   \<and> \<not> mounted (run browser_without_query init
      [SetOpen True, SetOpen False, SetOpen True, GetUserMediaResolved [7] None,
       GetUserMediaResolved [8] None, SetOpen False, Unmount])
   \<and> \<not> is_open (run browser_without_query init
      [SetOpen True, GetUserMediaResolved [7] None, ClickCancel, SetOpen False])"
  by (simp add: step_def init_def browser_without_query_def pieces)

text \<open>
  C4 (as the code has it). Along every run, \<^verbatim>\<open>onScanSuccess\<close> is called once for each decode
  callback the engine delivers, with exactly the decoded text and in the same order, and each
  of its calls is followed at once by \<^verbatim>\<open>onClose\<close>.
\<close>

theorem one_notification_per_decode:
  assumes "closes_follow (trace s)"
  shows "closes_follow (trace (run p s es))
       \<and> successes (trace (run p s es)) = successes (trace s) @ delivered p s es"
  using assms
proof (induction es arbitrary: s)
  case Nil
  then show ?case by simp
next
  case (Cons e es)
  from Cons.prems have "closes_follow (trace (step p s e))"
    by (rule step_closes_follow)
  from Cons.IH [OF this] show ?case
    by (simp add: step_successes delivered_Cons del: delivered.simps)
qed

theorem one_notification_per_decode_witness:
  "closes_follow (trace init)
   \<and> closes_follow (trace (run browser_without_query init
        [SetOpen True, GetUserMediaResolved [7] None, StartResolved 0, Decoded 0 ''ABC123'']))
   \<and> successes (trace (run browser_without_query init
        [SetOpen True, GetUserMediaResolved [7] None, StartResolved 0, Decoded 0 ''ABC123'']))
       = [''ABC123'']"
proof -
  have a: "closes_follow (trace init)" by (simp add: init_def)
  have b: "delivered browser_without_query init
        [SetOpen True, GetUserMediaResolved [7] None, StartResolved 0, Decoded 0 ''ABC123'']
       = [''ABC123'']"
    by (simp add: step_def init_def browser_without_query_def pieces)
  have c: "successes (trace init) = []" by (simp add: init_def)
  from one_notification_per_decode [OF a, of browser_without_query
        "[SetOpen True, GetUserMediaResolved [7] None, StartResolved 0, Decoded 0 ''ABC123'']"]
  show ?thesis unfolding b c using a by simp
qed

text \<open>
  C4 as stated fails: the component does not count. When the engine delivers a second decode
  before the pending \<^verbatim>\<open>stop()\<close> has resolved, \<^verbatim>\<open>onScanSuccess\<close> is called a second time in the
  same opened session.
\<close>

theorem notified_twice_in_one_session:
  "successes (trace (run browser_without_query init
      [SetOpen True, GetUserMediaResolved [7] None, StartResolved 0,
       Decoded 0 ''ABC123'', Decoded 0 ''ABC123'']))
     = [''ABC123'', ''ABC123'']
   \<and> stopped (run browser_without_query init
      [SetOpen True, GetUserMediaResolved [7] None, StartResolved 0, Decoded 0 ''ABC123'']) = []
   \<and> is_open (run browser_without_query init
      [SetOpen True, GetUserMediaResolved [7] None, StartResolved 0,
       Decoded 0 ''ABC123'', Decoded 0 ''ABC123''])"
  by (simp add: step_def init_def browser_without_query_def pieces)

text \<open>
  C6 (as the code has it). A frame-level error that is benign, or that contains none of
  "Permission", "camera", "NotAllowedError" and "PermissionDeniedError", is ignored: the state
  does not change. One that is not benign and contains one of the four sets the permission
  error with its fixed message and ends scanning. A generic error that carries the underlying
  message arises on the two structured channels only: a rejected \<^verbatim>\<open>start\<close> keeps the message
  when it mentions the camera and takes the fallback otherwise, a rejected \<^verbatim>\<open>getUserMedia\<close>
  with any other name keeps a non-empty message and takes the fallback otherwise.
\<close>

theorem frame_errors_classified:
  "(delivers s i \<and> (benign m \<or> \<not> permission_like m) \<longrightarrow> step p s (FrameError i m) = s)
   \<and> (delivers s i \<and> \<not> benign m \<and> permission_like m \<longrightarrow>
        step p s (FrameError i m) =
          s\<lparr>permissionError := True,
            error := Some ''Camera permission was denied. Please allow camera access and try again.'',
            isScanning := False\<rparr>)
   \<and> (AwaitStart i \<in> set (pending s) \<and> name \<noteq> ''NotAllowedError''
        \<and> \<not> str_includes m ''Permission'' \<and> \<not> str_includes m ''permission'' \<longrightarrow>
        error (step p s (StartRejected i (ErrorObj name m))) =
          Some (if str_includes m ''camera'' \<or> str_includes m ''Camera'' then m
                else ''Failed to start camera. Please ensure camera permissions are granted.'')
        \<and> \<not> isScanning (step p s (StartRejected i (ErrorObj name m)))
        \<and> permissionError (step p s (StartRejected i (ErrorObj name m))) = permissionError s)
   \<and> (AwaitGetUserMedia \<in> set (pending s)
        \<and> name \<noteq> ''NotAllowedError'' \<and> name \<noteq> ''PermissionDeniedError''
        \<and> name \<noteq> ''NotFoundError'' \<and> name \<noteq> ''DevicesNotFoundError''
        \<and> name \<noteq> ''NotReadableError'' \<and> name \<noteq> ''TrackStartError'' \<longrightarrow>
        error (step p s (GetUserMediaRejected (ErrorObj name m))) =
          Some (if m \<noteq> [] then m
                else ''Failed to access camera. Please check your browser settings.'')
        \<and> permissionError (step p s (GetUserMediaRejected (ErrorObj name m))) = permissionError s)"
  by (simp add: step_def onFrameError_def startScanning_failed_def startScanning_catch_def
        checkCameraPermissions_catch_def try_catch_def settle_def resume_def Let_def)

theorem frame_errors_classified_witness:
  "delivers (run browser_without_query init [SetOpen True, GetUserMediaResolved [7] None, StartResolved 0]) 0
   \<and> \<not> permission_like ''NotReadableError: Could not start video source''
   \<and> run browser_without_query init
        [SetOpen True, GetUserMediaResolved [7] None, StartResolved 0,
         FrameError 0 ''NotReadableError: Could not start video source'']
      = run browser_without_query init [SetOpen True, GetUserMediaResolved [7] None, StartResolved 0]
   \<and> AwaitStart 0 \<in> set (pending (run browser_without_query init [SetOpen True, GetUserMediaResolved [7] None]))
   \<and> error (run browser_without_query init
        [SetOpen True, GetUserMediaResolved [7] None, StartRejected 0 (ErrorObj ''Error'' ''Camera busy'')])
      = Some ''Camera busy''
   \<and> AwaitGetUserMedia \<in> set (pending (run browser_without_query init [SetOpen True]))
   \<and> error (run browser_without_query init
        [SetOpen True, GetUserMediaRejected (ErrorObj ''OverconstrainedError'' ''no rear camera'')])
      = Some ''no rear camera''"
proof -
  let ?a = "run browser_without_query init [SetOpen True, GetUserMediaResolved [7] None, StartResolved 0]"
  let ?b = "run browser_without_query init [SetOpen True, GetUserMediaResolved [7] None]"
  let ?c = "run browser_without_query init [SetOpen True]"
  have a: "delivers ?a 0"
    by (simp add: step_def init_def browser_without_query_def pieces)
  have n: "\<not> permission_like ''NotReadableError: Could not start video source''"
    by (simp add: permission_like_def)
  have b: "AwaitStart 0 \<in> set (pending ?b)"
    by (simp add: step_def init_def browser_without_query_def pieces)
  have c: "AwaitGetUserMedia \<in> set (pending ?c)"
    by (simp add: step_def init_def browser_without_query_def pieces)
  have m1: "\<not> str_includes ''Camera busy'' ''Permission'' \<and> \<not> str_includes ''Camera busy'' ''permission''
      \<and> str_includes ''Camera busy'' ''Camera''"
    by simp
  from frame_errors_classified
         [where s = ?a and i = 0 and p = browser_without_query
            and m = "''NotReadableError: Could not start video source''"] a n
  have r1: "step browser_without_query ?a
              (FrameError 0 ''NotReadableError: Could not start video source'') = ?a"
    by blast
  from frame_errors_classified
         [where s = ?b and i = 0 and p = browser_without_query and name = "''Error''"
            and m = "''Camera busy''"] b m1
  have r2: "error (step browser_without_query ?b (StartRejected 0 (ErrorObj ''Error'' ''Camera busy'')))
      = Some ''Camera busy''"
    by simp
  from frame_errors_classified
         [where s = ?c and p = browser_without_query and name = "''OverconstrainedError''"
            and m = "''no rear camera''"] c
  have r3: "error (step browser_without_query ?c
              (GetUserMediaRejected (ErrorObj ''OverconstrainedError'' ''no rear camera'')))
      = Some ''no rear camera''"
    by simp
  have e1: "run browser_without_query init
        [SetOpen True, GetUserMediaResolved [7] None, StartResolved 0,
         FrameError 0 ''NotReadableError: Could not start video source'']
      = step browser_without_query ?a (FrameError 0 ''NotReadableError: Could not start video source'')"
    by simp
  have e2: "run browser_without_query init
        [SetOpen True, GetUserMediaResolved [7] None, StartRejected 0 (ErrorObj ''Error'' ''Camera busy'')]
      = step browser_without_query ?b (StartRejected 0 (ErrorObj ''Error'' ''Camera busy''))"
    by simp
  have e3: "run browser_without_query init
        [SetOpen True, GetUserMediaRejected (ErrorObj ''OverconstrainedError'' ''no rear camera'')]
      = step browser_without_query ?c
          (GetUserMediaRejected (ErrorObj ''OverconstrainedError'' ''no rear camera''))"
    by simp
  show ?thesis
    unfolding e1 e2 e3 r1 r2 r3 using a n b c by simp
qed

text \<open>
  C6 as stated fails: a frame-level error that is neither benign nor a permission loss leaves
  the session scanning with no error, and the text "camera unavailable" is a permission
  error on the frame channel and a plain error on the startup channel.
\<close>

theorem frame_error_ignored_and_channels_differ:
  "\<not> benign ''NotReadableError: Could not start video source''
   \<and> \<not> permission_like ''NotReadableError: Could not start video source''
   \<and> phase_of (run browser_without_query init
        [SetOpen True, GetUserMediaResolved [7] None, StartResolved 0,
         FrameError 0 ''NotReadableError: Could not start video source'']) = Scanning
   \<and> error (run browser_without_query init
        [SetOpen True, GetUserMediaResolved [7] None, StartResolved 0,
         FrameError 0 ''NotReadableError: Could not start video source'']) = None
   \<and> phase_of (run browser_without_query init
        [SetOpen True, GetUserMediaResolved [7] None, StartResolved 0,
         FrameError 0 ''camera unavailable'']) = PermissionDenied
   \<and> phase_of (run browser_without_query init
        [SetOpen True, GetUserMediaResolved [7] None,
         StartRejected 0 (ErrorObj ''Error'' ''camera unavailable'')]) = Error"
  by (simp add: step_def init_def browser_without_query_def pieces phase_of_def
        benign_def permission_like_def)

lemma stopScanning_never_throws:
  "\<not> isl (stopScanning s) \<and> \<not> isl (stopScanning_stopped s)
   \<and> \<not> isl (stopScanning_cleared s) \<and> \<not> isl (stopScanning_failed e s)"
  by (simp add: stopScanning_def stopScanning_stopped_def stopScanning_cleared_def
        stopScanning_failed_def try_catch_def split: option.splits)

lemma close_unhandled:
  "unhandled (step p s (SetOpen False)) = unhandled s \<and> unhandled (step p s Unmount) = unhandled s"
  by (simp add: step_def effect_body_def effect_cleanup_def stopScanning_def settle_def
        call_def await_def split: option.splits)

lemma close_keeps_error:
  "error (step p s (SetOpen False)) = error s
   \<and> permissionError (step p s (SetOpen False)) = permissionError s
   \<and> isRequestingPermission (step p s (SetOpen False)) = isRequestingPermission s"
  by (simp add: step_def effect_body_def effect_cleanup_def stopScanning_def settle_def
        call_def await_def split: option.splits)

lemma close_is_open: "mounted s \<Longrightarrow> \<not> is_open (step p s (SetOpen False))"
  by (simp add: step_def effect_body_def effect_cleanup_def stopScanning_def settle_def
        call_def await_def split: option.splits)

lemma close_mounted: "mounted (step p s (SetOpen False)) = mounted s"
  by (simp add: step_def effect_body_def effect_cleanup_def stopScanning_def settle_def
        call_def await_def split: option.splits)

lemma close_twice: "step p (step p s (SetOpen False)) (SetOpen False) = step p s (SetOpen False)"
proof (cases "mounted s")
  case True
  then have "\<not> is_open (step p s (SetOpen False))" by (rule close_is_open)
  then show ?thesis by (simp add: step_def [of p "step p s (SetOpen False)"])
next
  case False
  then show ?thesis by (simp add: step_def)
qed

lemma close_without_scanner:
  "mounted s \<Longrightarrow> is_open s \<Longrightarrow> scannerRef s = None \<Longrightarrow>
     step p s (SetOpen False) = s\<lparr>is_open := False, isScanning := False\<rparr>"
  by (simp add: step_def effect_body_def effect_cleanup_def stopScanning_def settle_def)

lemma close_with_scanner:
  "mounted s \<Longrightarrow> is_open s \<Longrightarrow> scannerRef s = Some i \<Longrightarrow>
     trace (step p s (SetOpen False)) = trace s @ [ScannerStop i, ScannerStop i]
     \<and> pending (step p s (SetOpen False)) = pending s @ [AwaitStop i, AwaitStop i]"
  by (simp add: step_def effect_body_def effect_cleanup_def stopScanning_def settle_def
        call_def await_def)

lemma stop_settled:
  "(AwaitStop i \<in> set (pending s) \<longrightarrow>
      \<not> isScanning (step p s (StopRejected i e))
      \<and> unhandled (step p s (StopRejected i e)) = unhandled s
      \<and> unhandled (step p s (StopResolved i)) = unhandled s
      \<and> (scannerRef s = None \<longrightarrow> \<not> isScanning (step p s (StopResolved i))))
   \<and> (AwaitClear i \<in> set (pending s) \<longrightarrow>
      \<not> isScanning (step p s (ClearResolved i)) \<and> scannerRef (step p s (ClearResolved i)) = None
      \<and> \<not> isScanning (step p s (ClearRejected i e))
      \<and> unhandled (step p s (ClearResolved i)) = unhandled s
      \<and> unhandled (step p s (ClearRejected i e)) = unhandled s)"
  by (simp add: step_def stopScanning_stopped_def stopScanning_cleared_def
        stopScanning_failed_def try_catch_def settle_def call_def await_def resume_def
        Let_def split: option.splits)

text \<open>
  C9 (as the code has it). No piece of \<^verbatim>\<open>stopScanning\<close> throws, and closing, unmounting and
  the settling of \<^verbatim>\<open>stop()\<close> and \<^verbatim>\<open>clear()\<close> leave no unhandled exception, whatever fails.
  Closing leaves \<^verbatim>\<open>error\<close>, \<^verbatim>\<open>permissionError\<close> and \<^verbatim>\<open>isRequestingPermission\<close> as they
  are, and closing again changes nothing. With no scanner in the ref, closing sets
  \<^verbatim>\<open>isScanning\<close> to false at once, and the phase is Idle when no error is on record and no
  acquisition is in flight. With a scanner in the ref, closing calls \<^verbatim>\<open>stop()\<close> on it;
  \<^verbatim>\<open>isScanning\<close> becomes false when \<^verbatim>\<open>stop()\<close> fails, when it resolves with the ref already
  empty, or when \<^verbatim>\<open>clear()\<close> settles, and the ref is emptied when \<^verbatim>\<open>clear()\<close> resolves.
\<close>

theorem close_never_throws:
  "\<not> isl (stopScanning s) \<and> \<not> isl (stopScanning_stopped s)
   \<and> \<not> isl (stopScanning_cleared s) \<and> \<not> isl (stopScanning_failed e s)
   \<and> unhandled (step p s (SetOpen False)) = unhandled s
   \<and> unhandled (step p s Unmount) = unhandled s
   \<and> error (step p s (SetOpen False)) = error s
   \<and> permissionError (step p s (SetOpen False)) = permissionError s
   \<and> isRequestingPermission (step p s (SetOpen False)) = isRequestingPermission s
   \<and> step p (step p s (SetOpen False)) (SetOpen False) = step p s (SetOpen False)
   \<and> (mounted s \<and> is_open s \<and> scannerRef s = None \<longrightarrow>
        step p s (SetOpen False) = s\<lparr>is_open := False, isScanning := False\<rparr>
        \<and> (\<not> truthy (error s) \<and> \<not> isRequestingPermission s \<longrightarrow>
             phase_of (step p s (SetOpen False)) = Idle))
   \<and> (mounted s \<and> is_open s \<and> scannerRef s = Some i \<longrightarrow>
        trace (step p s (SetOpen False)) = trace s @ [ScannerStop i, ScannerStop i]
        \<and> pending (step p s (SetOpen False)) = pending s @ [AwaitStop i, AwaitStop i])
   \<and> (AwaitStop i \<in> set (pending s) \<longrightarrow>
        \<not> isScanning (step p s (StopRejected i e))
        \<and> unhandled (step p s (StopRejected i e)) = unhandled s
        \<and> unhandled (step p s (StopResolved i)) = unhandled s
        \<and> (scannerRef s = None \<longrightarrow> \<not> isScanning (step p s (StopResolved i))))
   \<and> (AwaitClear i \<in> set (pending s) \<longrightarrow>
        \<not> isScanning (step p s (ClearResolved i)) \<and> scannerRef (step p s (ClearResolved i)) = None
        \<and> \<not> isScanning (step p s (ClearRejected i e))
        \<and> unhandled (step p s (ClearResolved i)) = unhandled s
        \<and> unhandled (step p s (ClearRejected i e)) = unhandled s)"
proof -
  have idle: "mounted s \<and> is_open s \<and> scannerRef s = None \<longrightarrow>
        step p s (SetOpen False) = s\<lparr>is_open := False, isScanning := False\<rparr>
        \<and> (\<not> truthy (error s) \<and> \<not> isRequestingPermission s \<longrightarrow>
             phase_of (step p s (SetOpen False)) = Idle)"
    by (simp add: close_without_scanner phase_of_def)
  have scan: "mounted s \<and> is_open s \<and> scannerRef s = Some i \<longrightarrow>
        trace (step p s (SetOpen False)) = trace s @ [ScannerStop i, ScannerStop i]
        \<and> pending (step p s (SetOpen False)) = pending s @ [AwaitStop i, AwaitStop i]"
    using close_with_scanner [of s i p] by blast
  from stopScanning_never_throws [of s e] close_unhandled [of p s] close_keeps_error [of p s]
       close_twice [of p s] idle scan stop_settled [of i s p e]
  show ?thesis by blast
qed

theorem close_never_throws_witness:
  "mounted (run browser_without_query init [SetOpen True, GetUserMediaResolved [7] None, StartResolved 0])
   \<and> is_open (run browser_without_query init [SetOpen True, GetUserMediaResolved [7] None, StartResolved 0])
   \<and> scannerRef (run browser_without_query init [SetOpen True, GetUserMediaResolved [7] None, StartResolved 0]) = Some 0
   \<and> trace (run browser_without_query init
        [SetOpen True, GetUserMediaResolved [7] None, StartResolved 0, SetOpen False])
       = [GetUserMedia, TrackStop 7, NewScanner 0, ScannerStart 0, ScannerStop 0, ScannerStop 0]
   \<and> unhandled (run browser_without_query init
        [SetOpen True, GetUserMediaResolved [7] None, StartResolved 0, SetOpen False]) = []
   \<and> scannerRef (run browser_without_query init
        [SetOpen True, GetUserMediaResolved [7] None, StartResolved 0, Decoded 0 ''ABC123'',
         StopResolved 0, ClearResolved 0]) = None
   \<and> phase_of (run browser_without_query init
        [SetOpen True, GetUserMediaResolved [7] None, StartResolved 0, Decoded 0 ''ABC123'',
         StopResolved 0, ClearResolved 0, SetOpen False]) = Idle
   \<and> AwaitStop 0 \<in> set (pending (run browser_without_query init
        [SetOpen True, GetUserMediaResolved [7] None, StartResolved 0, SetOpen False]))
   \<and> \<not> isScanning (run browser_without_query init
        [SetOpen True, GetUserMediaResolved [7] None, StartResolved 0, SetOpen False,
         StopRejected 0 NonError])"
proof -
  let ?a = "run browser_without_query init [SetOpen True, GetUserMediaResolved [7] None, StartResolved 0]"
  let ?b = "run browser_without_query init
        [SetOpen True, GetUserMediaResolved [7] None, StartResolved 0, SetOpen False]"
  have a: "?a = \<lparr>mounted = True, is_open = True, scannerRef = Some 0, isScanning = True,
    error = None, permissionError = False, isRequestingPermission = False,
    pending = [], stopped = [], next_id = 1, unhandled = [],
    trace = [GetUserMedia, TrackStop 7, NewScanner 0, ScannerStart 0]\<rparr>"
    by (simp add: step_def init_def browser_without_query_def pieces)
  have a1: "mounted ?a \<and> is_open ?a \<and> scannerRef ?a = Some 0"
    and a2: "trace ?a = [GetUserMedia, TrackStop 7, NewScanner 0, ScannerStart 0]"
    and a3: "unhandled ?a = []" and a4: "pending ?a = []"
    unfolding a by simp_all
  have b: "?b = step browser_without_query ?a (SetOpen False)" by simp
  from close_never_throws [of ?a _ browser_without_query 0] a1
  have c: "trace (step browser_without_query ?a (SetOpen False)) = trace ?a @ [ScannerStop 0, ScannerStop 0]"
    and d: "unhandled (step browser_without_query ?a (SetOpen False)) = unhandled ?a"
    and e: "pending (step browser_without_query ?a (SetOpen False)) = pending ?a @ [AwaitStop 0, AwaitStop 0]"
    by blast+
  have f: "AwaitStop 0 \<in> set (pending ?b)" unfolding b e a4 by simp
  from close_never_throws [of ?b NonError browser_without_query 0] f
  have g: "\<not> isScanning (step browser_without_query ?b (StopRejected 0 NonError))"
    by blast
  have h: "run browser_without_query init
        [SetOpen True, GetUserMediaResolved [7] None, StartResolved 0, SetOpen False,
         StopRejected 0 NonError] = step browser_without_query ?b (StopRejected 0 NonError)"
    by simp
  let ?c = "run browser_without_query init
        [SetOpen True, GetUserMediaResolved [7] None, StartResolved 0, Decoded 0 ''ABC123'',
         StopResolved 0, ClearResolved 0]"
  have c0: "?c = \<lparr>mounted = True, is_open = True, scannerRef = None, isScanning = False,
    error = None, permissionError = False, isRequestingPermission = False,
    pending = [], stopped = [0], next_id = 1, unhandled = [],
    trace = [GetUserMedia, TrackStop 7, NewScanner 0, ScannerStart 0, ScannerStop 0,
             OnScanSuccess ''ABC123'', OnClose, ScannerClear 0]\<rparr>"
    by (simp add: step_def init_def browser_without_query_def pieces)
  have c1: "mounted ?c \<and> is_open ?c \<and> scannerRef ?c = None"
    and c2: "\<not> truthy (error ?c) \<and> \<not> isRequestingPermission ?c"
    unfolding c0 by simp_all
  have i: "scannerRef ?c = None" using c1 by blast
  from close_never_throws [of ?c _ browser_without_query] c1 c2
  have j0: "phase_of (step browser_without_query ?c (SetOpen False)) = Idle"
    by blast
  have j1: "run browser_without_query init
        [SetOpen True, GetUserMediaResolved [7] None, StartResolved 0, Decoded 0 ''ABC123'',
         StopResolved 0, ClearResolved 0, SetOpen False]
      = step browser_without_query ?c (SetOpen False)"
    by simp
  have j: "phase_of (run browser_without_query init
        [SetOpen True, GetUserMediaResolved [7] None, StartResolved 0, Decoded 0 ''ABC123'',
         StopResolved 0, ClearResolved 0, SetOpen False]) = Idle"
    unfolding j1 by (rule j0)
  have k: "trace ?b = [GetUserMedia, TrackStop 7, NewScanner 0, ScannerStart 0, ScannerStop 0, ScannerStop 0]"
    unfolding b c a2 by simp
  have l: "unhandled ?b = []" unfolding b d a3 by simp
  from a1 k l i j f g show ?thesis unfolding h by blast
qed

text \<open>
  C9 as stated fails: closing a dialog that shows an error leaves the session in the phase
  Error, and closing a scanning dialog leaves it Scanning while \<^verbatim>\<open>stop()\<close> is pending.
\<close>

theorem close_leaves_error_phase:
  "phase_of (run browser init
      [SetOpen True, PermissionsQueryResolved Prompt,
       GetUserMediaRejected (ErrorObj ''NotReadableError'' ''Could not start video source'')]) = Error
   \<and> phase_of (run browser init
      [SetOpen True, PermissionsQueryResolved Prompt,
       GetUserMediaRejected (ErrorObj ''NotReadableError'' ''Could not start video source''),
       SetOpen False]) = Error
   \<and> phase_of (run browser init
      [SetOpen True, PermissionsQueryResolved Prompt, GetUserMediaResolved [7] None,
       StartResolved 0, SetOpen False]) = Scanning"
  by (simp add: step_def init_def browser_def pieces phase_of_def)

section \<open>Properties of the admin route guard\<close>

lemmas admin_defs = admin_step_def verifyAdmin_def verifyAdmin_profile_def verifyAdmin_catch_def

lemma admin_step_checking:
  "is_checking s \<Longrightarrow> \<not> is_checking (admin_step s e) \<Longrightarrow> e = ProfileResolved True \<and> 0 < fetching s"
  by (cases e) (auto simp add: admin_defs split: if_splits)

lemma admin_step_fetching:
  "fetching s \<le> count_list (admin_trace s) GetProfile \<Longrightarrow>
     fetching (admin_step s e) \<le> count_list (admin_trace (admin_step s e)) GetProfile"
  by (cases e) (auto simp add: admin_defs split: if_splits)

lemma admin_run_fetching:
  "fetching s \<le> count_list (admin_trace s) GetProfile \<Longrightarrow>
     fetching (admin_run s es) \<le> count_list (admin_trace (admin_run s es)) GetProfile"
  by (induction es arbitrary: s) (simp_all add: admin_step_fetching)

lemma admin_step_trace_grows:
  "GetProfile \<in> set (admin_trace s) \<Longrightarrow> GetProfile \<in> set (admin_trace (admin_step s e))"
  by (cases e) (auto simp add: admin_defs split: if_splits)

lemma admin_run_trace_grows:
  "GetProfile \<in> set (admin_trace s) \<Longrightarrow> GetProfile \<in> set (admin_trace (admin_run s es))"
  by (induction es arbitrary: s) (simp_all add: admin_step_trace_grows)

lemma admin_run_children:
  "is_checking s \<Longrightarrow> fetching s \<le> count_list (admin_trace s) GetProfile \<Longrightarrow>
   \<not> is_checking (admin_run s es) \<Longrightarrow>
     ProfileResolved True \<in> set es \<and> GetProfile \<in> set (admin_trace (admin_run s es))"
proof (induction es arbitrary: s)
  case Nil
  then show ?case by simp
next
  case (Cons e es)
  have inv: "fetching (admin_step s e) \<le> count_list (admin_trace (admin_step s e)) GetProfile"
    using Cons.prems(2) by (rule admin_step_fetching)
  show ?case
  proof (cases "is_checking (admin_step s e)")
    case True
    from Cons.IH [OF True inv] Cons.prems(3) show ?thesis by simp
  next
    case False
    with Cons.prems(1) have e: "e = ProfileResolved True" and f: "0 < fetching s"
      using admin_step_checking by blast+
    from f Cons.prems(2) have "0 < count_list (admin_trace s) GetProfile" by simp
    then have "GetProfile \<in> set (admin_trace s)"
      by (simp add: count_list_0_iff zero_less_iff_neq_zero)
    then have "GetProfile \<in> set (admin_trace (admin_run s (e # es)))"
      by (rule admin_run_trace_grows)
    with e show ?thesis by simp
  qed
qed

text \<open>
  C10. Whatever events arrive, the guard shows its children only after a profile fetch that
  it started has resolved with \<^verbatim>\<open>isAdmin\<close> true. Without a token it toasts and navigates to
  the login page and starts no fetch; on a failed fetch it toasts, clears the token and
  navigates to the login page; for a user who is no admin it toasts and navigates to the
  dashboard. None of the three changes whether the children are shown.
\<close>

theorem admin_children_only_for_admins:
  "(renders_children (admin_run admin_init es) \<longrightarrow>
      ProfileResolved True \<in> set es \<and> GetProfile \<in> set (admin_trace (admin_run admin_init es)))
   \<and> (\<not> truthy token \<longrightarrow>
        admin_trace (admin_step s (VerifyAdmin token)) =
          admin_trace s @ [ToastError ''Please login first'', Navigate ''/login'']
        \<and> fetching (admin_step s (VerifyAdmin token)) = fetching s
        \<and> renders_children (admin_step s (VerifyAdmin token)) = renders_children s)
   \<and> (0 < fetching s \<longrightarrow>
        admin_trace (admin_step s ProfileRejected) =
          admin_trace s @ [ToastError ''Session expired. Please login again'', ClearToken, Navigate ''/login'']
        \<and> renders_children (admin_step s ProfileRejected) = renders_children s
        \<and> admin_trace (admin_step s (ProfileResolved False)) =
          admin_trace s @ [ToastError ''Access denied: Admins only'', Navigate ''/dashboard'']
        \<and> renders_children (admin_step s (ProfileResolved False)) = renders_children s)"
proof -
  have "renders_children (admin_run admin_init es) \<longrightarrow>
      ProfileResolved True \<in> set es \<and> GetProfile \<in> set (admin_trace (admin_run admin_init es))"
    using admin_run_children [of admin_init es]
    by (simp add: renders_children_def admin_init_def)
  then show ?thesis
    by (simp add: admin_defs renders_children_def)
qed

theorem admin_children_only_for_admins_witness:
  "renders_children (admin_run admin_init [VerifyAdmin (Some ''token''), ProfileResolved True])
   \<and> \<not> renders_children (admin_run admin_init [VerifyAdmin None])
   \<and> admin_trace (admin_run admin_init [VerifyAdmin None])
       = [ToastError ''Please login first'', Navigate ''/login'']
   \<and> \<not> renders_children (admin_run admin_init [VerifyAdmin (Some ''token''), ProfileRejected])
   \<and> admin_trace (admin_run admin_init [VerifyAdmin (Some ''token''), ProfileRejected])
       = [GetProfile, ToastError ''Session expired. Please login again'', ClearToken, Navigate ''/login'']
   \<and> \<not> renders_children (admin_run admin_init [VerifyAdmin (Some ''token''), ProfileResolved False])
   \<and> admin_trace (admin_run admin_init [VerifyAdmin (Some ''token''), ProfileResolved False])
       = [GetProfile, ToastError ''Access denied: Admins only'', Navigate ''/dashboard'']"
proof -
  let ?f = "admin_step admin_init (VerifyAdmin (Some ''token''))"
  have f: "?f = \<lparr>is_checking = True, fetching = 1, admin_trace = [GetProfile]\<rparr>"
    by (simp add: admin_defs admin_init_def)
  have f1: "0 < fetching ?f" and f2: "admin_trace ?f = [GetProfile]"
    and f3: "\<not> renders_children ?f"
    unfolding f by (simp_all add: renders_children_def)
  have i1: "\<not> renders_children admin_init" and i2: "admin_trace admin_init = []"
    by (simp_all add: renders_children_def admin_init_def)
  have r: "renders_children (admin_run admin_init [VerifyAdmin (Some ''token''), ProfileResolved True])"
    by (simp add: admin_defs admin_init_def renders_children_def)
  have t: "\<not> truthy None" by simp
  from admin_children_only_for_admins [of "[VerifyAdmin (Some ''token''), ProfileResolved True]" None admin_init]
  have a: "admin_trace (admin_step admin_init (VerifyAdmin None)) =
          admin_trace admin_init @ [ToastError ''Please login first'', Navigate ''/login'']
        \<and> renders_children (admin_step admin_init (VerifyAdmin None)) = renders_children admin_init"
    using t by blast
  from admin_children_only_for_admins [of "[]" None ?f] f1
  have b: "admin_trace (admin_step ?f ProfileRejected) =
          admin_trace ?f @ [ToastError ''Session expired. Please login again'', ClearToken, Navigate ''/login'']
        \<and> renders_children (admin_step ?f ProfileRejected) = renders_children ?f
        \<and> admin_trace (admin_step ?f (ProfileResolved False)) =
          admin_trace ?f @ [ToastError ''Access denied: Admins only'', Navigate ''/dashboard'']
        \<and> renders_children (admin_step ?f (ProfileResolved False)) = renders_children ?f"
    by blast
  from a i1 i2 have a': "\<not> renders_children (admin_step admin_init (VerifyAdmin None))
      \<and> admin_trace (admin_step admin_init (VerifyAdmin None))
          = [ToastError ''Please login first'', Navigate ''/login'']"
    by simp
  from b f2 f3 have b': "\<not> renders_children (admin_step ?f ProfileRejected)
      \<and> admin_trace (admin_step ?f ProfileRejected)
          = [GetProfile, ToastError ''Session expired. Please login again'', ClearToken, Navigate ''/login'']
      \<and> \<not> renders_children (admin_step ?f (ProfileResolved False))
      \<and> admin_trace (admin_step ?f (ProfileResolved False))
          = [GetProfile, ToastError ''Access denied: Admins only'', Navigate ''/dashboard'']"
    by simp
  from r a' b' show ?thesis by simp
qed

end
